theory Spec2Isabelle
  imports Complex_Main
begin

section \<open>Python values and exceptions\<close>

text \<open>
  The metadata of a chunk is a Python dict from strings to values; the values the
  pipeline formats are scalars. \<open>py_str\<close> is Python's \<open>str()\<close> on them, which is
  what an f-string applies to a \<open>{...}\<close> field.
\<close>

datatype pyval = PyNone | PyBool bool | PyInt int | PyStr string

definition digit_char :: "nat \<Rightarrow> char" where
  "digit_char d = ''0123456789'' ! d"

function str_nat :: "nat \<Rightarrow> string" where
  "str_nat n = (if n < 10 then [digit_char n] else str_nat (n div 10) @ [digit_char (n mod 10)])"
  by pat_completeness auto
termination
  by (relation "measure id") auto

declare str_nat.simps [simp del]

definition str_int :: "int \<Rightarrow> string" where
  "str_int i = (if i < 0 then ''-'' @ str_nat (nat (- i)) else str_nat (nat i))"

fun py_str :: "pyval \<Rightarrow> string" where
  "py_str PyNone = ''None''"
| "py_str (PyBool b) = (if b then ''True'' else ''False'')"
| "py_str (PyInt i) = str_int i"
| "py_str (PyStr s) = s"

text \<open>
  The exception classes the code names in its handlers or raises itself, with the
  built-in hierarchy above them; \<open>Subclass name parent\<close> is any further class
  (a library's own exception) derived from \<open>parent\<close>. \<open>mro\<close> lists a class and
  its ancestors, so \<open>except C\<close> matches an exception whose class has \<open>C\<close> in it.
\<close>

datatype py_class =
    BaseException | Exception | ValueError | TypeError | OSError | ConnectionError
  | LookupError | IndexError | KeyError | KeyboardInterrupt | SystemExit
  | Subclass string py_class

primrec mro :: "py_class \<Rightarrow> py_class list" where
  "mro BaseException = [BaseException]"
| "mro Exception = [Exception, BaseException]"
| "mro ValueError = [ValueError, Exception, BaseException]"
| "mro TypeError = [TypeError, Exception, BaseException]"
| "mro OSError = [OSError, Exception, BaseException]"
| "mro ConnectionError = [ConnectionError, OSError, Exception, BaseException]"
| "mro LookupError = [LookupError, Exception, BaseException]"
| "mro IndexError = [IndexError, LookupError, Exception, BaseException]"
| "mro KeyError = [KeyError, LookupError, Exception, BaseException]"
| "mro KeyboardInterrupt = [KeyboardInterrupt, BaseException]"
| "mro SystemExit = [SystemExit, BaseException]"
| "mro (Subclass name parent) = Subclass name parent # mro parent"

text \<open>An exception object: its class and the text \<open>str(e)\<close> gives.\<close>

datatype py_exception = PyExc (exc_class: py_class) (exc_str: string)

definition isinstance :: "py_exception \<Rightarrow> py_class \<Rightarrow> bool" where
  "isinstance e c = (c \<in> set (mro (exc_class e)))"

section \<open>Data of the pipeline\<close>

text \<open>A chunk (LangChain \<open>Document\<close>): \<open>page_content\<close> and the \<open>metadata\<close> dict.\<close>

record document =
  page_content :: string
  metadata :: "string \<rightharpoonup> pyval"

text \<open>The arguments \<open>load_docs\<close> gives to \<open>UnstructuredLoader\<close>.\<close>

record loader_request =
  file_path :: string
  strategy :: string
  partition_via_api :: bool
  coordinates :: bool

record jina_embeddings =
  jina_api_key :: string
  model_name :: string

datatype distance = COSINE | EUCLID | DOT | MANHATTAN

text \<open>\<open>VectorParams(size=..., distance=...)\<close>.\<close>

record vector_params =
  size_vp :: nat
  distance_vp :: distance

record qdrant_client =
  location :: string

record vector_store =
  vs_client :: qdrant_client
  vs_collection_name :: string
  vs_embedding :: jina_embeddings

text \<open>
  A chat request as \<open>openai.chat.completions.create\<close> receives it. The temperature is
  the decimal literal of the source, kept exact: the code passes it on and computes
  nothing with it.
\<close>

record message =
  role :: string
  content :: string

record chat_request =
  model :: string
  messages :: "message list"
  max_tokens :: nat
  temperature :: rat

text \<open>
  The response: \<open>choices\<close>, each standing for its \<open>message.content\<close> (a string,
  or \<open>None\<close>).
\<close>

record chat_completion =
  choices :: "pyval list"

section \<open>The world: environment, log and external calls\<close>

datatype level = INFO | SUCCESS | ERROR

text \<open>
  Everything the program does that is visible outside it, in the order it happens:
  the lines it logs and the calls it makes to its collaborators.
\<close>

datatype event =
    Logged level string
  | Getpass string
  | LoaderLoad loader_request
  | JinaEmbeddingsInit jina_embeddings
  | QdrantClientInit string
  | CreateCollection qdrant_client string vector_params
  | QdrantVectorStoreInit vector_store
  | Uuid4 string
  | AddDocuments vector_store "document list" "string list"
  | SimilaritySearch vector_store string nat
  | ChatCompletionsCreate chat_request

record world =
  environ :: "string \<rightharpoonup> string"
  openai_api_key :: "string option"
  history :: "event list"

text \<open>
  The collaborators are not part of the repository: each is a parameter. A collaborator
  answers a call from the history of the run so far and the call's arguments, with a
  value or with an exception. \<open>uuid4\<close> is \<open>str(uuid4())\<close>.
\<close>

record services =
  getpass :: "event list \<Rightarrow> string \<Rightarrow> py_exception + string"
  loader_load :: "event list \<Rightarrow> loader_request \<Rightarrow> py_exception + document list"
  jina_init :: "event list \<Rightarrow> jina_embeddings \<Rightarrow> py_exception + unit"
  client_init :: "event list \<Rightarrow> string \<Rightarrow> py_exception + unit"
  create_collection :: "event list \<Rightarrow> qdrant_client \<Rightarrow> string \<Rightarrow> vector_params \<Rightarrow> py_exception + unit"
  vector_store_init :: "event list \<Rightarrow> vector_store \<Rightarrow> py_exception + unit"
  uuid4 :: "event list \<Rightarrow> string"
  add_documents :: "event list \<Rightarrow> vector_store \<Rightarrow> document list \<Rightarrow> string list \<Rightarrow> py_exception + string list"
  similarity_search :: "event list \<Rightarrow> vector_store \<Rightarrow> string \<Rightarrow> nat \<Rightarrow> py_exception + document list"
  chat_create :: "event list \<Rightarrow> chat_request \<Rightarrow> py_exception + chat_completion"

text \<open>
  A statement of the program takes the world and returns the value it computes, or the
  exception it raises, with the world it leaves. An exception keeps what was done before
  it: nothing is rolled back.
\<close>

type_synonym 'a io = "world \<Rightarrow> (py_exception + 'a) \<times> world"

definition py_return :: "'a \<Rightarrow> 'a io" where
  "py_return x w = (Inr x, w)"

definition py_raise :: "py_exception \<Rightarrow> 'a io" where
  "py_raise e w = (Inl e, w)"

definition py_bind :: "'a io \<Rightarrow> ('a \<Rightarrow> 'b io) \<Rightarrow> 'b io" where
  "py_bind m f w = (case m w of (Inl e, w') \<Rightarrow> (Inl e, w') | (Inr x, w') \<Rightarrow> f x w')"

definition emit :: "event \<Rightarrow> world \<Rightarrow> world" where
  "emit ev w = w\<lparr>history := history w @ [ev]\<rparr>"

definition logger :: "level \<Rightarrow> string \<Rightarrow> unit io" where
  "logger lv msg w = (Inr (), emit (Logged lv msg) w)"

definition extern :: "(event list \<Rightarrow> py_exception + 'a) \<Rightarrow> event \<Rightarrow> 'a io" where
  "extern answer ev w = (answer (history w), emit ev w)"

text \<open>\<open>os.environ[key]\<close>: a missing key raises \<open>KeyError\<close>, whose text is the key's repr.\<close>

definition environ_get :: "string \<Rightarrow> string io" where
  "environ_get key w =
     (case environ w key of
        None \<Rightarrow> (Inl (PyExc KeyError ([CHR 0x27] @ key @ [CHR 0x27])), w)
      | Some v \<Rightarrow> (Inr v, w))"

text \<open>\<open>d.get(key, default)\<close> on a dict.\<close>

definition dict_get :: "('k \<rightharpoonup> 'v) \<Rightarrow> 'k \<Rightarrow> 'v \<Rightarrow> 'v" where
  "dict_get d key dflt = (case d key of None \<Rightarrow> dflt | Some v \<Rightarrow> v)"

section \<open>preprocess\_docs.py\<close>

definition load_request :: "string \<Rightarrow> loader_request" where
  "load_request path =
     \<lparr>file_path = path, strategy = ''hi_res'', partition_via_api = True, coordinates = True\<rparr>"

definition load_docs :: "services \<Rightarrow> string \<Rightarrow> (document list) io" where
  "load_docs sv path =
     py_bind (extern (\<lambda>h. loader_load sv h (load_request path)) (LoaderLoad (load_request path)))
       (\<lambda>doc.
     py_bind (logger SUCCESS (''Document '' @ path @ ''sucessfully loaded.''))
       (\<lambda>_.
     py_return doc))"

text \<open>\<open>[str(uuid4()) for _ in range(n)]\<close>.\<close>

fun uuid_loop :: "services \<Rightarrow> nat \<Rightarrow> world \<Rightarrow> string list \<times> world" where
  "uuid_loop sv 0 w = ([], w)"
| "uuid_loop sv (Suc n) w =
     (let u = uuid4 sv (history w);
          (us, w') = uuid_loop sv n (emit (Uuid4 u) w)
      in (u # us, w'))"

definition set_embeddings :: "services \<Rightarrow> document list \<Rightarrow> string \<Rightarrow> (vector_store \<times> string list) io" where
  "set_embeddings sv doc collection_name =
     py_bind (logger INFO ''Setting Jina Model.'')
       (\<lambda>_.
     py_bind (environ_get ''JINA_API_KEY'')
       (\<lambda>key.
     let embeddings = \<lparr>jina_api_key = key, model_name = ''jina-embeddings-v2-base-en''\<rparr> in
     py_bind (extern (\<lambda>h. jina_init sv h embeddings) (JinaEmbeddingsInit embeddings))
       (\<lambda>_.
     py_bind (logger INFO ''Creating collection and setting Client.'')
       (\<lambda>_.
     let client = \<lparr>location = '':memory:''\<rparr> in
     py_bind (extern (\<lambda>h. client_init sv h '':memory:'') (QdrantClientInit '':memory:''))
       (\<lambda>_.
     let params = \<lparr>size_vp = 768, distance_vp = COSINE\<rparr> in
     py_bind (extern (\<lambda>h. create_collection sv h client collection_name params)
                (CreateCollection client collection_name params))
       (\<lambda>_.
     py_bind (logger INFO ''Setting Vector Store object.'')
       (\<lambda>_.
     let vector_store = \<lparr>vs_client = client, vs_collection_name = collection_name, vs_embedding = embeddings\<rparr> in
     py_bind (extern (\<lambda>h. vector_store_init sv h vector_store) (QdrantVectorStoreInit vector_store))
       (\<lambda>_.
     py_bind (logger INFO ''Generating ids for the document content.'')
       (\<lambda>_.
     py_bind (\<lambda>w. case uuid_loop sv (length doc) w of (us, w') \<Rightarrow> (Inr us, w'))
       (\<lambda>uuids.
     py_bind (logger SUCCESS ''Qdrant Embedding Environment set!'')
       (\<lambda>_.
     py_return (vector_store, uuids))))))))))))"

text \<open>
  \<open>add_doc\<close>: the file name is read from \<open>doc[0]\<close> before the \<open>try\<close>; the handlers
  are tried in the order they are written. A function that ends without \<open>return\<close>
  returns \<open>None\<close>.
\<close>

definition add_doc :: "services \<Rightarrow> vector_store \<Rightarrow> document list \<Rightarrow> string list \<Rightarrow> pyval io" where
  "add_doc sv vector_store doc ids w =
     (case doc of
        [] \<Rightarrow> (Inl (PyExc IndexError ''list index out of range''), w)
      | d0 # _ \<Rightarrow>
          let file_name = dict_get (metadata d0) ''filename'' PyNone in
          (case extern (\<lambda>h. add_documents sv h vector_store doc ids) (AddDocuments vector_store doc ids) w of
             (Inr _, w1) \<Rightarrow>
               (Inr PyNone,
                emit (Logged SUCCESS (''Document '' @ py_str file_name @ '' added to vector store'')) w1)
           | (Inl e, w1) \<Rightarrow>
               if isinstance e ValueError then
                 (Inr PyNone,
                  emit (Logged ERROR (''There's an error while handling the document list: '' @ exc_str e)) w1)
               else if isinstance e TypeError then
                 (Inr PyNone,
                  emit (Logged ERROR (''Type error while handling document list: '' @ exc_str e)) w1)
               else if isinstance e ConnectionError then
                 (Inr PyNone,
                  emit (Logged ERROR
                    (''Connection error while communicating with Vector Store: '' @ exc_str e)) w1)
               else if isinstance e Exception then
                 (Inr PyNone,
                  emit (Logged ERROR
                    (''Unexpected error ocurred whhile adding document '' @ py_str file_name
                      @ '': '' @ exc_str e)) w1)
               else (Inl e, w1)))"

section \<open>utils.py\<close>

text \<open>\<open>os.environ[key] = value\<close>.\<close>

definition environ_set :: "string \<Rightarrow> string \<Rightarrow> unit io" where
  "environ_set key v w = (Inr (), w\<lparr>environ := (environ w)(key \<mapsto> v)\<rparr>)"

text \<open>
  \<open>check_keys\<close>: a key that is not in the environment is asked for and stored; the
  embedding key is not among the two it looks at.
\<close>

definition prompt_key :: "services \<Rightarrow> string \<Rightarrow> string \<Rightarrow> unit io" where
  "prompt_key sv key question w =
     (if key \<notin> dom (environ w) then
        py_bind (extern (\<lambda>h. getpass sv h question) (Getpass question)) (environ_set key) w
      else (Inr (), w))"

definition check_keys :: "services \<Rightarrow> pyval io" where
  "check_keys sv =
     py_bind (prompt_key sv ''UNSTRUCTURED_API_KEY'' ''Enter you Unstructured API key:'')
       (\<lambda>_.
     py_bind (prompt_key sv ''OPENAI_API_KEY'' ''Enter your OpenAI API key:'')
       (\<lambda>_.
     py_return PyNone))"

section \<open>multimodal\_rag\_jina.py\<close>

text \<open>\<open>sep.join(parts)\<close>: the first part, then the separator before each later part.\<close>

fun py_join :: "string \<Rightarrow> string list \<Rightarrow> string" where
  "py_join sep [] = []"
| "py_join sep (x # xs) = foldl (\<lambda>acc y. acc @ sep @ y) x xs"

definition blank_line :: string where
  "blank_line = [CHR 0x0A, CHR 0x0A]"

text \<open>The f-string of the comprehension, for one retrieved document.\<close>

definition page_entry :: "document \<Rightarrow> string" where
  "page_entry d =
     ''Page '' @ py_str (dict_get (metadata d) ''page_number'' (PyStr ''Unknown''))
       @ '': '' @ page_content d"

definition build_context :: "document list \<Rightarrow> string" where
  "build_context retrieved_docs = py_join blank_line (map page_entry retrieved_docs)"

definition preamble :: string where
  "preamble =
     ''You are an AI assistant helping answer questions based on provided context. The context contains information extracted from multiple pages of a document. ''
     @ ''Please use this context to provide a detailed and accurate response to the question.''
     @ blank_line"

definition build_prompt :: "string \<Rightarrow> document list \<Rightarrow> string" where
  "build_prompt query retrieved_docs =
     preamble
     @ ''Context: '' @ build_context retrieved_docs @ blank_line
     @ ''Question: '' @ query @ blank_line
     @ ''Answer:''"

definition chat_request_of :: "string \<Rightarrow> document list \<Rightarrow> chat_request" where
  "chat_request_of query retrieved_docs =
     \<lparr>model = ''gpt-4o'',
      messages =
        [\<lparr>role = ''system'', content = ''You are a helpful assistant.''\<rparr>,
         \<lparr>role = ''user'', content = build_prompt query retrieved_docs\<rparr>],
      max_tokens = 300,
      temperature = 7 / 10\<rparr>"

text \<open>
  \<open>generate_answer_with_gpt4\<close>: one call, then \<open>response.choices[0].message.content\<close>;
  indexing an empty \<open>choices\<close> raises.
\<close>

definition generate_answer_with_gpt4 :: "services \<Rightarrow> string \<Rightarrow> document list \<Rightarrow> pyval io" where
  "generate_answer_with_gpt4 sv query retrieved_docs =
     py_bind (extern (\<lambda>h. chat_create sv h (chat_request_of query retrieved_docs))
                (ChatCompletionsCreate (chat_request_of query retrieved_docs)))
       (\<lambda>response.
     case choices response of
       [] \<Rightarrow> py_raise (PyExc IndexError ''list index out of range'')
     | c # _ \<Rightarrow> py_return c)"

definition FILE_PATH :: string where
  "FILE_PATH = ''./data/relatorio_b3_2023.pdf''"

definition query_model :: string where
  "query_model = ''How many pages does the document have?''"

definition set_openai_api_key :: "string \<Rightarrow> unit io" where
  "set_openai_api_key k w = (Inr (), w\<lparr>openai_api_key := Some k\<rparr>)"

text \<open>
  The statements of the script, in their order. The script has no \<open>try\<close>: the
  first exception ends it. Lines 67 to 74 load and index the document; their result is
  the script's variable \<open>vector_store\<close>.
\<close>

definition script_index :: "services \<Rightarrow> vector_store io" where
  "script_index sv =
     py_bind (environ_get ''OPENAI_API_KEY'')
       (\<lambda>k.
     py_bind (set_openai_api_key k)
       (\<lambda>_.
     py_bind (logger INFO (''Loading document at '' @ FILE_PATH @ ''.''))
       (\<lambda>_.
     py_bind (load_docs sv FILE_PATH)
       (\<lambda>doc.
     py_bind (set_embeddings sv doc ''qdrant_test'')
       (\<lambda>(vector_store, uuids).
     py_bind (logger INFO ''Adding Documents to vector store.'')
       (\<lambda>_.
     py_bind (add_doc sv vector_store doc uuids)
       (\<lambda>_.
     py_return vector_store)))))))"

text \<open>Lines 76 to 82 query the store and generate the answer.\<close>

definition script_answer :: "services \<Rightarrow> vector_store \<Rightarrow> pyval io" where
  "script_answer sv vector_store =
     py_bind (extern (\<lambda>h. similarity_search sv h vector_store query_model 3)
                (SimilaritySearch vector_store query_model 3))
       (\<lambda>results.
     py_bind (generate_answer_with_gpt4 sv query_model results)
       (\<lambda>answer.
     py_bind (logger SUCCESS (''Answer: '' @ py_str answer))
       (\<lambda>_.
     py_return answer)))"

text \<open>
  The whole script, from \<open>check_keys()\<close> on. The world it starts in is the one
  \<open>load_dotenv()\<close> leaves.
\<close>

definition main :: "services \<Rightarrow> pyval io" where
  "main sv = py_bind (check_keys sv) (\<lambda>_. py_bind (script_index sv) (script_answer sv))"

section \<open>The context string as the specification words it\<close>

text \<open>
  The specification's wording of the context: the retrieved chunks in their given order,
  each as \<open>Page {page_number}: {text}\<close> with \<open>Unknown\<close> for an absent page number,
  and a blank line between two neighbours.
\<close>

definition spec_entry :: "document \<Rightarrow> string" where
  "spec_entry d =
     ''Page ''
     @ (if ''page_number'' \<in> dom (metadata d) then py_str (the (metadata d ''page_number''))
        else ''Unknown'')
     @ '': '' @ page_content d"

fun spec_context :: "document list \<Rightarrow> string" where
  "spec_context [] = []"
| "spec_context [d] = spec_entry d"
| "spec_context (d # d' # ds) = spec_entry d @ [CHR 0x0A, CHR 0x0A] @ spec_context (d' # ds)"

section \<open>Reading the history\<close>

text \<open>The identifiers generated so far, and the collections created so far, in order.\<close>

fun uuid_events :: "event list \<Rightarrow> string list" where
  "uuid_events [] = []"
| "uuid_events (Uuid4 u # h) = u # uuid_events h"
| "uuid_events (_ # h) = uuid_events h"

fun creates :: "event list \<Rightarrow> (qdrant_client \<times> string \<times> vector_params) list" where
  "creates [] = []"
| "creates (CreateCollection c n p # h) = (c, n, p) # creates h"
| "creates (_ # h) = creates h"

section \<open>A concrete run\<close>

text \<open>
  One chunk, an environment with the three keys, and collaborators that all answer:
  the inputs at which the theorems below are instantiated.
\<close>

definition demo_chunk :: document where
  "demo_chunk =
     \<lparr>page_content = ''Annual report'',
      metadata = [''filename'' \<mapsto> PyStr ''relatorio_b3_2023.pdf'', ''page_number'' \<mapsto> PyInt 1]\<rparr>"

definition counter_uuid :: "event list \<Rightarrow> string" where
  "counter_uuid h = ''id-'' @ replicate (Suc (sum_list (map length (uuid_events h)))) (CHR ''x'')"

definition demo_services :: services where
  "demo_services =
     \<lparr>getpass = (\<lambda>h q. Inr ''typed-key''),
      loader_load = (\<lambda>h r. Inr [demo_chunk]),
      jina_init = (\<lambda>h e. Inr ()),
      client_init = (\<lambda>h l. Inr ()),
      create_collection = (\<lambda>h c n p. Inr ()),
      vector_store_init = (\<lambda>h s. Inr ()),
      uuid4 = counter_uuid,
      add_documents = (\<lambda>h s d ids. Inr ids),
      similarity_search = (\<lambda>h s q k. Inr (take k [demo_chunk])),
      chat_create = (\<lambda>h r. Inr \<lparr>choices = [PyStr ''One page.'']\<rparr>)\<rparr>"

definition demo_world :: world where
  "demo_world =
     \<lparr>environ = [''JINA_API_KEY'' \<mapsto> ''jina'', ''OPENAI_API_KEY'' \<mapsto> ''openai'',
                 ''UNSTRUCTURED_API_KEY'' \<mapsto> ''unstructured''],
      openai_api_key = None,
      history = []\<rparr>"

definition demo_store :: vector_store where
  "demo_store =
     \<lparr>vs_client = \<lparr>location = '':memory:''\<rparr>, vs_collection_name = ''qdrant_test'',
      vs_embedding = \<lparr>jina_api_key = ''jina'', model_name = ''jina-embeddings-v2-base-en''\<rparr>\<rparr>"

section \<open>Properties of add\_doc\<close>

lemma add_doc_nonempty_returns:
  assumes "doc \<noteq> []"
    and "\<And>e. add_documents sv (history w) store doc ids = Inl e \<Longrightarrow> isinstance e Exception"
  shows "fst (add_doc sv store doc ids w) = Inr PyNone"
  using assms
  by (cases doc; cases "add_documents sv (history w) store doc ids")
     (auto simp: add_doc_def extern_def Let_def)

text \<open>
  On a list that is not empty, an exception of class \<open>Exception\<close> raised by the
  insertion ends in one ERROR line that carries its text.
\<close>

lemma add_doc_logs_error:
  assumes "doc \<noteq> []"
    and "add_documents sv (history w) store doc ids = Inl e"
    and "isinstance e Exception"
  shows "\<exists>msg. history (snd (add_doc sv store doc ids w))
           = history w @ [AddDocuments store doc ids, Logged ERROR (msg @ exc_str e)]"
proof (cases doc)
  case Nil
  with assms(1) show ?thesis by simp
next
  case (Cons d0 ds)
  have line: "\<exists>msg. h @ [a, Logged ERROR (m @ exc_str e)] = h @ [a, Logged ERROR (msg @ exc_str e)]"
    for h a m
    by blast
  from assms(2,3) show ?thesis
    unfolding add_doc_def Cons
    by (simp add: extern_def emit_def Let_def line del: append_assoc)
qed

text \<open>
  C1. The claim: for every document list \<open>add_doc\<close> returns normally. On the empty
  list it does not: \<open>doc[0]\<close> is read before the \<open>try\<close>, so the \<open>IndexError\<close>
  leaves \<open>add_doc\<close>, with nothing inserted and nothing logged. The script reaches
  this when the loader returns no chunk, and ends there.
\<close>

theorem add_doc_empty_raises:
  "add_doc sv store [] ids w = (Inl (PyExc IndexError ''list index out of range''), w)
   \<and> fst (main (demo_services\<lparr>loader_load := \<lambda>h r. Inr []\<rparr>) demo_world)
       = Inl (PyExc IndexError ''list index out of range'')"
  by (simp add: add_doc_def main_def script_index_def check_keys_def prompt_key_def
      py_bind_def py_return_def environ_get_def set_openai_api_key_def logger_def extern_def
      emit_def load_docs_def set_embeddings_def demo_services_def demo_world_def Let_def)

text \<open>
  C10. Whenever \<open>add_doc\<close> returns, it returns \<open>None\<close>: after an insertion that
  succeeded, and after one whose exception a handler caught, so the value does not tell
  the two apart.
\<close>

theorem add_doc_returns_none:
  "(fst (add_doc sv store doc ids w) = Inr v \<longrightarrow> v = PyNone)
   \<and> (doc \<noteq> [] \<and> add_documents sv (history w) store doc ids = Inr r
        \<longrightarrow> fst (add_doc sv store doc ids w) = Inr PyNone)
   \<and> (doc \<noteq> [] \<and> add_documents sv (history w) store doc ids = Inl e \<and> isinstance e Exception
        \<longrightarrow> fst (add_doc sv store doc ids w) = Inr PyNone)"
  by (cases doc; cases "add_documents sv (history w) store doc ids")
     (auto simp: add_doc_def extern_def Let_def)

theorem add_doc_returns_none_witness:
  "[demo_chunk] \<noteq> []
   \<and> add_documents (demo_services\<lparr>add_documents := \<lambda>h s d i. Inl (PyExc ValueError ''bad value'')\<rparr>)
        (history demo_world) demo_store [demo_chunk] [''id-x'']
      = Inl (PyExc ValueError ''bad value'')
   \<and> isinstance (PyExc ValueError ''bad value'') Exception
   \<and> fst (add_doc (demo_services\<lparr>add_documents := \<lambda>h s d i. Inl (PyExc ValueError ''bad value'')\<rparr>)
        demo_store [demo_chunk] [''id-x''] demo_world) = Inr PyNone"
  using add_doc_returns_none
    [of "demo_services\<lparr>add_documents := \<lambda>h s d i. Inl (PyExc ValueError ''bad value'')\<rparr>"
        demo_store "[demo_chunk]" "[''id-x'']" demo_world PyNone "[]"
        "PyExc ValueError ''bad value''"]
  by (simp add: isinstance_def)

section \<open>Properties of the context and the generation request\<close>

lemma foldl_join: "foldl (\<lambda>acc y. acc @ sep @ y) x xs = x @ concat (map ((@) sep) xs)"
  by (induction xs arbitrary: x) auto

lemma py_join_Cons2: "py_join sep (x # y # ys) = x @ sep @ py_join sep (y # ys)"
  by (simp add: foldl_join)

lemma page_entry_spec: "page_entry d = spec_entry d"
  by (auto simp: page_entry_def spec_entry_def dict_get_def split: option.splits)

lemma build_context_spec: "build_context docs = spec_context docs"
proof (induction docs rule: spec_context.induct)
  case 1
  show ?case by (simp add: build_context_def)
next
  case (2 d)
  show ?case by (simp add: build_context_def page_entry_spec)
next
  case (3 d d' ds)
  then show ?case
    unfolding build_context_def
    by (simp only: list.map py_join_Cons2 spec_context.simps page_entry_spec blank_line_def)
qed

text \<open>
  C3. The context built by \<open>generate_answer_with_gpt4\<close> is the one the specification
  words: the retrieved documents in the order given, each as \<open>Page {page_number}: {text}\<close>,
  a blank line between neighbours. For results of page 5 then page 1 it reads
  \<open>Page 5: ...\<close>, blank line, \<open>Page 1: ...\<close>; a document without the
  \<open>page_number\<close> key reads \<open>Page Unknown: ...\<close>.
\<close>

theorem context_assembly:
  "build_context docs = spec_context docs
   \<and> build_context
       [\<lparr>page_content = c3, metadata = [''page_number'' \<mapsto> PyInt 5]\<rparr>,
        \<lparr>page_content = c1, metadata = [''page_number'' \<mapsto> PyInt 1]\<rparr>]
     = ''Page 5: '' @ c3 @ [CHR 0x0A, CHR 0x0A] @ ''Page 1: '' @ c1
   \<and> build_context [d\<lparr>metadata := (metadata d)(''page_number'' := None)\<rparr>]
     = ''Page Unknown: '' @ page_content d"
proof (intro conjI)
  show "build_context docs = spec_context docs"
    by (rule build_context_spec)
  show "build_context
       [\<lparr>page_content = c3, metadata = [''page_number'' \<mapsto> PyInt 5]\<rparr>,
        \<lparr>page_content = c1, metadata = [''page_number'' \<mapsto> PyInt 1]\<rparr>]
     = ''Page 5: '' @ c3 @ [CHR 0x0A, CHR 0x0A] @ ''Page 1: '' @ c1"
    by (simp add: build_context_def page_entry_def dict_get_def blank_line_def str_int_def
        str_nat.simps digit_char_def)
  show "build_context [d\<lparr>metadata := (metadata d)(''page_number'' := None)\<rparr>]
     = ''Page Unknown: '' @ page_content d"
    by (simp add: build_context_def page_entry_def dict_get_def)
qed

text \<open>An instance: three results, the second without a page number.\<close>

theorem context_assembly_witness:
  "build_context
     [\<lparr>page_content = ''Revenue grew.'', metadata = [''page_number'' \<mapsto> PyInt 12]\<rparr>,
      \<lparr>page_content = ''Cover'', metadata = Map.empty\<rparr>,
      demo_chunk]
   = ''Page 12: Revenue grew.'' @ [CHR 0x0A, CHR 0x0A] @ ''Page Unknown: Cover''
       @ [CHR 0x0A, CHR 0x0A] @ ''Page 1: Annual report''"
  using context_assembly
    [of "[\<lparr>page_content = ''Revenue grew.'', metadata = [''page_number'' \<mapsto> PyInt 12]\<rparr>,
          \<lparr>page_content = ''Cover'', metadata = Map.empty\<rparr>, demo_chunk]"]
  by (simp add: spec_entry_def demo_chunk_def str_int_def str_nat.simps digit_char_def)

text \<open>
  C7. Whatever the query and the documents, \<open>generate_answer_with_gpt4\<close> makes one
  generation request and no other call: two messages, the system message
  \<open>You are a helpful assistant.\<close> and the user message made of the fixed preamble, the
  context, the query and the closing \<open>Answer:\<close>, with at most 300 tokens and
  temperature 0.7; when the service answers with one text, that text is returned.
\<close>

theorem generation_request:
  "history (snd (generate_answer_with_gpt4 sv query docs w))
     = history w
       @ [ChatCompletionsCreate
            \<lparr>model = ''gpt-4o'',
             messages =
               [\<lparr>role = ''system'', content = ''You are a helpful assistant.''\<rparr>,
                \<lparr>role = ''user'',
                 content = preamble @ ''Context: '' @ build_context docs @ blank_line
                           @ ''Question: '' @ query @ blank_line @ ''Answer:''\<rparr>],
             max_tokens = 300,
             temperature = 7 / 10\<rparr>]
   \<and> (chat_create sv (history w) (chat_request_of query docs) = Inr \<lparr>choices = [PyStr text]\<rparr>
        \<longrightarrow> fst (generate_answer_with_gpt4 sv query docs w) = Inr (PyStr text))"
  by (auto simp: generate_answer_with_gpt4_def py_bind_def extern_def emit_def py_raise_def
      py_return_def chat_request_of_def build_prompt_def split: sum.splits list.splits)

theorem generation_request_witness:
  "chat_create demo_services (history demo_world) (chat_request_of query_model [demo_chunk])
     = Inr \<lparr>choices = [PyStr ''One page.'']\<rparr>
   \<and> fst (generate_answer_with_gpt4 demo_services query_model [demo_chunk] demo_world)
     = Inr (PyStr ''One page.'')
   \<and> history (snd (generate_answer_with_gpt4 demo_services query_model [demo_chunk] demo_world))
     = [ChatCompletionsCreate (chat_request_of query_model [demo_chunk])]"
  using generation_request [of demo_services query_model "[demo_chunk]" demo_world "''One page.''"]
  by (simp add: demo_services_def demo_world_def chat_request_of_def build_prompt_def)

section \<open>Properties of set\_embeddings\<close>

lemma uuid_events_append: "uuid_events (h1 @ h2) = uuid_events h1 @ uuid_events h2"
  by (induction h1 rule: uuid_events.induct) simp_all

lemma creates_append: "creates (h1 @ h2) = creates h1 @ creates h2"
  by (induction h1 rule: creates.induct) simp_all

lemma uuid_events_map: "uuid_events (map Uuid4 us) = us"
  by (induction us) simp_all


lemma uuid_events_mem: "Uuid4 u \<in> set h \<Longrightarrow> u \<in> set (uuid_events h)"
  by (induction h rule: uuid_events.induct) auto

lemma counter_uuid_fresh: "Uuid4 (counter_uuid h) \<notin> set h"
proof
  assume "Uuid4 (counter_uuid h) \<in> set h"
  then have "counter_uuid h \<in> set (uuid_events h)"
    by (rule uuid_events_mem)
  then have "length (counter_uuid h) \<le> sum_list (map length (uuid_events h))"
    by (simp add: member_le_sum_list)
  then show False
    by (simp add: counter_uuid_def)
qed

lemma uuid_loop_shape:
  "uuid_loop sv n w = (us, w') \<Longrightarrow>
     length us = n \<and> w' = w\<lparr>history := history w @ map Uuid4 us\<rparr>"
proof (induction n arbitrary: w us w')
  case 0
  then show ?case by simp
next
  case (Suc n)
  obtain us1 w1 where r: "uuid_loop sv n (emit (Uuid4 (uuid4 sv (history w))) w) = (us1, w1)"
    by (cases "uuid_loop sv n (emit (Uuid4 (uuid4 sv (history w))) w)")
  from Suc.prems r have us: "us = uuid4 sv (history w) # us1" and w': "w' = w1"
    by (simp_all add: Let_def)
  from Suc.IH [OF r] show ?case
    by (simp add: us w' emit_def)
qed

lemma uuid_loop_fresh:
  assumes fresh: "\<forall>h. Uuid4 (uuid4 sv h) \<notin> set h"
  shows "uuid_loop sv n w = (us, w') \<Longrightarrow>
     distinct us \<and> (\<forall>u \<in> set us. Uuid4 u \<notin> set (history w))"
proof (induction n arbitrary: w us w')
  case 0
  then show ?case by simp
next
  case (Suc n)
  let ?u = "uuid4 sv (history w)"
  obtain us1 w1 where r: "uuid_loop sv n (emit (Uuid4 ?u) w) = (us1, w1)"
    by (cases "uuid_loop sv n (emit (Uuid4 ?u) w)")
  from Suc.prems r have us: "us = ?u # us1"
    by (simp add: Let_def)
  from Suc.IH [OF r] have d: "distinct us1"
    and f: "\<forall>u \<in> set us1. Uuid4 u \<notin> set (history (emit (Uuid4 ?u) w))"
    by simp_all
  from f have "?u \<notin> set us1" and "\<forall>u \<in> set us1. Uuid4 u \<notin> set (history w)"
    by (auto simp: emit_def)
  with d fresh show ?case
    by (simp add: us)
qed

lemma set_embeddings_shape:
  assumes "set_embeddings sv doc name w = (Inr (store, uuids), w')"
  shows "\<exists>key w2.
     environ w ''JINA_API_KEY'' = Some key
     \<and> store = \<lparr>vs_client = \<lparr>location = '':memory:''\<rparr>, vs_collection_name = name,
           vs_embedding = \<lparr>jina_api_key = key, model_name = ''jina-embeddings-v2-base-en''\<rparr>\<rparr>
     \<and> uuid_loop sv (length doc) (w\<lparr>history := history w @
          [Logged INFO ''Setting Jina Model.'',
           JinaEmbeddingsInit (vs_embedding store),
           Logged INFO ''Creating collection and setting Client.'',
           QdrantClientInit '':memory:'',
           CreateCollection (vs_client store) name \<lparr>size_vp = 768, distance_vp = COSINE\<rparr>,
           Logged INFO ''Setting Vector Store object.'',
           QdrantVectorStoreInit store,
           Logged INFO ''Generating ids for the document content.'']\<rparr>) = (uuids, w2)
     \<and> w' = emit (Logged SUCCESS ''Qdrant Embedding Environment set!'') w2"
  using assms
  by (auto simp: set_embeddings_def py_bind_def logger_def extern_def environ_get_def
      py_return_def Let_def emit_def split: option.splits sum.splits prod.splits)

lemma set_embeddings_history:
  assumes "set_embeddings sv doc name w = (Inr (store, uuids), w')"
  shows "history w' = history w @
          [Logged INFO ''Setting Jina Model.'',
           JinaEmbeddingsInit (vs_embedding store),
           Logged INFO ''Creating collection and setting Client.'',
           QdrantClientInit '':memory:'',
           CreateCollection (vs_client store) name \<lparr>size_vp = 768, distance_vp = COSINE\<rparr>,
           Logged INFO ''Setting Vector Store object.'',
           QdrantVectorStoreInit store,
           Logged INFO ''Generating ids for the document content.'']
          @ map Uuid4 uuids @ [Logged SUCCESS ''Qdrant Embedding Environment set!'']"
    and "length uuids = length doc"
    and "vs_collection_name store = name"
proof -
  from set_embeddings_shape [OF assms] obtain key w2 where
    st: "store = \<lparr>vs_client = \<lparr>location = '':memory:''\<rparr>, vs_collection_name = name,
           vs_embedding = \<lparr>jina_api_key = key, model_name = ''jina-embeddings-v2-base-en''\<rparr>\<rparr>"
    and lp: "uuid_loop sv (length doc) (w\<lparr>history := history w @
          [Logged INFO ''Setting Jina Model.'',
           JinaEmbeddingsInit (vs_embedding store),
           Logged INFO ''Creating collection and setting Client.'',
           QdrantClientInit '':memory:'',
           CreateCollection (vs_client store) name \<lparr>size_vp = 768, distance_vp = COSINE\<rparr>,
           Logged INFO ''Setting Vector Store object.'',
           QdrantVectorStoreInit store,
           Logged INFO ''Generating ids for the document content.'']\<rparr>) = (uuids, w2)"
    and w': "w' = emit (Logged SUCCESS ''Qdrant Embedding Environment set!'') w2"
    by blast
  from uuid_loop_shape [OF lp] show "length uuids = length doc"
    by simp
  from uuid_loop_shape [OF lp] show "history w' = history w @
          [Logged INFO ''Setting Jina Model.'',
           JinaEmbeddingsInit (vs_embedding store),
           Logged INFO ''Creating collection and setting Client.'',
           QdrantClientInit '':memory:'',
           CreateCollection (vs_client store) name \<lparr>size_vp = 768, distance_vp = COSINE\<rparr>,
           Logged INFO ''Setting Vector Store object.'',
           QdrantVectorStoreInit store,
           Logged INFO ''Generating ids for the document content.'']
          @ map Uuid4 uuids @ [Logged SUCCESS ''Qdrant Embedding Environment set!'']"
    by (simp add: w' emit_def)
  from st show "vs_collection_name store = name"
    by simp
qed

lemma set_embeddings_distinct:
  assumes fresh: "\<forall>h. Uuid4 (uuid4 sv h) \<notin> set h"
    and ret: "set_embeddings sv doc name w = (Inr (store, uuids), w')"
  shows "distinct uuids" and "\<forall>u \<in> set uuids. Uuid4 u \<notin> set (history w)"
proof -
  from set_embeddings_shape [OF ret] obtain w1 w2 where
    lp: "uuid_loop sv (length doc) w1 = (uuids, w2)" and h: "set (history w) \<subseteq> set (history w1)"
    by fastforce
  from uuid_loop_fresh [OF fresh lp] h
  show "distinct uuids" and "\<forall>u \<in> set uuids. Uuid4 u \<notin> set (history w)"
    by auto
qed

text \<open>
  C2. When \<open>set_embeddings\<close> returns, the identifier list has the length of the chunk
  list, its elements are pairwise distinct, and it is, in order, what the loop's calls
  of \<open>uuid4\<close> returned: the i-th identifier is the one generated for the i-th chunk.
  Distinctness rests on \<open>uuid4\<close> itself, which the code calls once per chunk and does
  not check: it is assumed never to repeat an identifier it gave out earlier in the run.
\<close>

theorem set_embeddings_identifiers:
  assumes fresh: "\<forall>h. Uuid4 (uuid4 sv h) \<notin> set h"
    and ret: "fst (set_embeddings sv doc name w) = Inr (store, uuids)"
  shows "length uuids = length doc
         \<and> distinct uuids
         \<and> uuid_events (history (snd (set_embeddings sv doc name w)))
             = uuid_events (history w) @ uuids
         \<and> (\<forall>i < length doc.
               uuids ! i = uuid_events (history (snd (set_embeddings sv doc name w)))
                             ! (length (uuid_events (history w)) + i))"
proof -
  obtain w' where run: "set_embeddings sv doc name w = (Inr (store, uuids), w')"
    using ret by (cases "set_embeddings sv doc name w") simp
  have len: "length uuids = length doc"
    by (rule set_embeddings_history(2) [OF run])
  have ev: "uuid_events (history w') = uuid_events (history w) @ uuids"
    by (simp add: set_embeddings_history(1) [OF run] uuid_events_append uuid_events_map)
  have "distinct uuids"
    by (rule set_embeddings_distinct(1) [OF fresh run])
  with len ev show ?thesis
    by (simp add: run)
qed

theorem set_embeddings_identifiers_witness:
  "(\<forall>h. Uuid4 (uuid4 demo_services h) \<notin> set h)
   \<and> fst (set_embeddings demo_services [demo_chunk, demo_chunk\<lparr>page_content := ''Second''\<rparr>]
            ''qdrant_test'' demo_world)
       = Inr (demo_store, [''id-x'', ''id-xxxxx''])
   \<and> length [''id-x'', ''id-xxxxx''] = length [demo_chunk, demo_chunk\<lparr>page_content := ''Second''\<rparr>]
   \<and> distinct [''id-x'', ''id-xxxxx'']"
proof -
  have fresh: "\<forall>h. Uuid4 (uuid4 demo_services h) \<notin> set h"
    by (simp add: demo_services_def counter_uuid_fresh)
  have ret: "fst (set_embeddings demo_services [demo_chunk, demo_chunk\<lparr>page_content := ''Second''\<rparr>]
            ''qdrant_test'' demo_world)
       = Inr (demo_store, [''id-x'', ''id-xxxxx''])"
    by (simp add: set_embeddings_def py_bind_def logger_def extern_def environ_get_def
        py_return_def emit_def demo_services_def demo_world_def demo_store_def counter_uuid_def
        Let_def)
  from set_embeddings_identifiers [OF fresh ret] fresh ret show ?thesis
    by simp
qed

text \<open>
  C8. Without \<open>JINA_API_KEY\<close> in the environment, \<open>set_embeddings\<close> raises
  \<open>KeyError\<close> at the statement that builds the embedding client; it has logged one
  line and made no call: no collection is created and no identifier is generated.
\<close>

theorem missing_jina_key_fails_first:
  assumes "environ w ''JINA_API_KEY'' = None"
  shows "set_embeddings sv doc name w =
           (Inl (PyExc KeyError ([CHR 0x27] @ ''JINA_API_KEY'' @ [CHR 0x27])),
            emit (Logged INFO ''Setting Jina Model.'') w)
         \<and> creates (history (snd (set_embeddings sv doc name w))) = creates (history w)
         \<and> uuid_events (history (snd (set_embeddings sv doc name w))) = uuid_events (history w)"
proof -
  have app1: "creates (h @ [Logged lv m]) = creates h" for h lv m
    by (induction h rule: creates.induct) simp_all
  have app2: "uuid_events (h @ [Logged lv m]) = uuid_events h" for h lv m
    by (induction h rule: uuid_events.induct) simp_all
  have "set_embeddings sv doc name w =
           (Inl (PyExc KeyError ([CHR 0x27] @ ''JINA_API_KEY'' @ [CHR 0x27])),
            emit (Logged INFO ''Setting Jina Model.'') w)"
    using assms
    by (simp add: set_embeddings_def py_bind_def logger_def environ_get_def emit_def)
  then show ?thesis
    by (simp add: emit_def app1 app2)
qed

theorem missing_jina_key_fails_first_witness:
  "environ (demo_world\<lparr>environ := [''OPENAI_API_KEY'' \<mapsto> ''openai'']\<rparr>) ''JINA_API_KEY'' = None
   \<and> set_embeddings demo_services [demo_chunk] ''qdrant_test''
        (demo_world\<lparr>environ := [''OPENAI_API_KEY'' \<mapsto> ''openai'']\<rparr>)
     = (Inl (PyExc KeyError ([CHR 0x27] @ ''JINA_API_KEY'' @ [CHR 0x27])),
        emit (Logged INFO ''Setting Jina Model.'')
          (demo_world\<lparr>environ := [''OPENAI_API_KEY'' \<mapsto> ''openai'']\<rparr>))"
  using missing_jina_key_fails_first
    [of "demo_world\<lparr>environ := [''OPENAI_API_KEY'' \<mapsto> ''openai'']\<rparr>" demo_services
        "[demo_chunk]" "''qdrant_test''"]
  by simp

section \<open>Properties of the script\<close>

lemma load_docs_result:
  "load_docs sv path w =
     (case loader_load sv (history w) (load_request path) of
        Inl e \<Rightarrow> (Inl e, emit (LoaderLoad (load_request path)) w)
      | Inr doc \<Rightarrow>
          (Inr doc,
           emit (Logged SUCCESS (''Document '' @ path @ ''sucessfully loaded.''))
             (emit (LoaderLoad (load_request path)) w)))"
  by (simp add: load_docs_def py_bind_def extern_def logger_def py_return_def split: sum.splits)

lemma generate_answer_result:
  "generate_answer_with_gpt4 sv query docs w =
     (case chat_create sv (history w) (chat_request_of query docs) of
        Inl e \<Rightarrow> (Inl e, emit (ChatCompletionsCreate (chat_request_of query docs)) w)
      | Inr response \<Rightarrow>
          (case choices response of
             [] \<Rightarrow> Inl (PyExc IndexError ''list index out of range'')
           | c # _ \<Rightarrow> Inr c,
           emit (ChatCompletionsCreate (chat_request_of query docs)) w))"
  by (simp add: generate_answer_with_gpt4_def py_bind_def extern_def py_return_def py_raise_def
      split: sum.splits list.splits)

lemma script_answer_search_fails:
  "similarity_search sv (history w) store query_model 3 = Inl e \<Longrightarrow>
     script_answer sv store w = (Inl e, emit (SimilaritySearch store query_model 3) w)"
  by (simp add: script_answer_def py_bind_def extern_def)

lemma script_answer_generation_fails:
  "similarity_search sv (history w) store query_model 3 = Inr results \<Longrightarrow>
   chat_create sv (history w @ [SimilaritySearch store query_model 3])
     (chat_request_of query_model results) = Inl e \<Longrightarrow>
     script_answer sv store w =
       (Inl e, emit (ChatCompletionsCreate (chat_request_of query_model results))
                 (emit (SimilaritySearch store query_model 3) w))"
  by (simp add: script_answer_def py_bind_def extern_def generate_answer_result emit_def)

lemma script_answer_completes:
  "fst (script_answer sv store w) = Inr answer \<Longrightarrow>
     \<exists>results response.
       similarity_search sv (history w) store query_model 3 = Inr results
       \<and> chat_create sv (history w @ [SimilaritySearch store query_model 3])
            (chat_request_of query_model results) = Inr response"
  by (auto simp: script_answer_def py_bind_def extern_def generate_answer_result emit_def
      logger_def py_return_def split: sum.splits list.splits)

lemma script_index_completes:
  "fst (script_index sv w) = Inr store \<Longrightarrow>
     \<exists>h doc. loader_load sv h (load_request FILE_PATH) = Inr doc"
  by (auto simp: script_index_def py_bind_def load_docs_result
      split: sum.splits prod.splits)

lemma main_completes:
  "fst (main sv w) = Inr answer \<Longrightarrow>
     (\<exists>h doc. loader_load sv h (load_request FILE_PATH) = Inr doc)
     \<and> (\<exists>h store results.
           similarity_search sv h store query_model 3 = Inr results
           \<and> (\<exists>h' response.
                 chat_create sv h' (chat_request_of query_model results) = Inr response))"
proof -
  assume a: "fst (main sv w) = Inr answer"
  then obtain v w0 store w1 where "check_keys sv w = (Inr v, w0)"
    and ix: "script_index sv w0 = (Inr store, w1)"
    and an: "fst (script_answer sv store w1) = Inr answer"
    by (auto simp: main_def py_bind_def split: sum.splits prod.splits)
  from ix have "fst (script_index sv w0) = Inr store" by simp
  from script_index_completes [OF this] script_answer_completes [OF an]
  show ?thesis by blast
qed

text \<open>
  C6. A failure of the loader leaves \<open>load_docs\<close> as the exception it is, after the
  one call made; a failure of the similarity search or of the generation call leaves the
  script's query block the same way, with no further call, no answer logged and nothing
  tried again; and a run of the script that ends normally is one in which the loader,
  the search and the generation call all answered. Only the insertion is different:
  an exception of class \<open>Exception\<close> raised by it is caught in \<open>add_doc\<close>, which
  returns.
\<close>

theorem failures_propagate:
  "(loader_load sv (history w) (load_request path) = Inl e
      \<longrightarrow> load_docs sv path w = (Inl e, emit (LoaderLoad (load_request path)) w))
   \<and> (environ w ''OPENAI_API_KEY'' = Some k
       \<and> loader_load sv (history w @ [Logged INFO (''Loading document at '' @ FILE_PATH @ ''.'')])
            (load_request FILE_PATH) = Inl e
      \<longrightarrow> script_index sv w
            = (Inl e, emit (LoaderLoad (load_request FILE_PATH))
                        (emit (Logged INFO (''Loading document at '' @ FILE_PATH @ ''.''))
                           (w\<lparr>openai_api_key := Some k\<rparr>))))
   \<and> (similarity_search sv (history w) store query_model 3 = Inl e
      \<longrightarrow> script_answer sv store w = (Inl e, emit (SimilaritySearch store query_model 3) w))
   \<and> (chat_create sv (history w) (chat_request_of query docs) = Inl e
      \<longrightarrow> generate_answer_with_gpt4 sv query docs w
            = (Inl e, emit (ChatCompletionsCreate (chat_request_of query docs)) w))
   \<and> (similarity_search sv (history w) store query_model 3 = Inr results
       \<and> chat_create sv (history w @ [SimilaritySearch store query_model 3])
            (chat_request_of query_model results) = Inl e
      \<longrightarrow> script_answer sv store w
            = (Inl e, emit (ChatCompletionsCreate (chat_request_of query_model results))
                        (emit (SimilaritySearch store query_model 3) w)))
   \<and> (fst (main sv w) = Inr answer
      \<longrightarrow> (\<exists>h doc. loader_load sv h (load_request FILE_PATH) = Inr doc)
          \<and> (\<exists>h store results.
                similarity_search sv h store query_model 3 = Inr results
                \<and> (\<exists>h' response.
                      chat_create sv h' (chat_request_of query_model results) = Inr response)))
   \<and> (doc \<noteq> [] \<and> add_documents sv (history w) store doc ids = Inl e \<and> isinstance e Exception
      \<longrightarrow> fst (add_doc sv store doc ids w) = Inr PyNone)"
proof (intro conjI impI)
  assume "loader_load sv (history w) (load_request path) = Inl e"
  then show "load_docs sv path w = (Inl e, emit (LoaderLoad (load_request path)) w)"
    by (simp add: load_docs_result)
next
  assume "environ w ''OPENAI_API_KEY'' = Some k
       \<and> loader_load sv (history w @ [Logged INFO (''Loading document at '' @ FILE_PATH @ ''.'')])
            (load_request FILE_PATH) = Inl e"
  then show "script_index sv w
            = (Inl e, emit (LoaderLoad (load_request FILE_PATH))
                        (emit (Logged INFO (''Loading document at '' @ FILE_PATH @ ''.''))
                           (w\<lparr>openai_api_key := Some k\<rparr>)))"
    by (simp add: script_index_def py_bind_def environ_get_def set_openai_api_key_def logger_def
        load_docs_result emit_def)
next
  assume "similarity_search sv (history w) store query_model 3 = Inl e"
  then show "script_answer sv store w = (Inl e, emit (SimilaritySearch store query_model 3) w)"
    by (rule script_answer_search_fails)
next
  assume "chat_create sv (history w) (chat_request_of query docs) = Inl e"
  then show "generate_answer_with_gpt4 sv query docs w
            = (Inl e, emit (ChatCompletionsCreate (chat_request_of query docs)) w)"
    by (simp add: generate_answer_result)
next
  assume "similarity_search sv (history w) store query_model 3 = Inr results
       \<and> chat_create sv (history w @ [SimilaritySearch store query_model 3])
            (chat_request_of query_model results) = Inl e"
  then show "script_answer sv store w
            = (Inl e, emit (ChatCompletionsCreate (chat_request_of query_model results))
                        (emit (SimilaritySearch store query_model 3) w))"
    by (simp add: script_answer_generation_fails)
next
  assume a: "fst (main sv w) = Inr answer"
  from main_completes [OF a]
  show "\<exists>h doc. loader_load sv h (load_request FILE_PATH) = Inr doc"
    and "\<exists>h store results.
                similarity_search sv h store query_model 3 = Inr results
                \<and> (\<exists>h' response.
                      chat_create sv h' (chat_request_of query_model results) = Inr response)"
    by simp_all
next
  assume "doc \<noteq> [] \<and> add_documents sv (history w) store doc ids = Inl e \<and> isinstance e Exception"
  then show "fst (add_doc sv store doc ids w) = Inr PyNone"
    by (intro add_doc_nonempty_returns) auto
qed

theorem failures_propagate_witness:
  "load_docs (demo_services\<lparr>loader_load := \<lambda>h r. Inl (PyExc OSError ''unreachable'')\<rparr>)
       FILE_PATH demo_world
     = (Inl (PyExc OSError ''unreachable''), emit (LoaderLoad (load_request FILE_PATH)) demo_world)
   \<and> fst (script_index (demo_services\<lparr>loader_load := \<lambda>h r. Inl (PyExc OSError ''unreachable'')\<rparr>)
            demo_world)
     = Inl (PyExc OSError ''unreachable'')
   \<and> script_answer
       (demo_services\<lparr>similarity_search := \<lambda>h s q k. Inl (PyExc ConnectionError ''down'')\<rparr>)
       demo_store demo_world
     = (Inl (PyExc ConnectionError ''down''),
        emit (SimilaritySearch demo_store query_model 3) demo_world)
   \<and> generate_answer_with_gpt4
       (demo_services\<lparr>chat_create := \<lambda>h r. Inl (PyExc (Subclass ''RateLimitError'' Exception) ''429'')\<rparr>)
       query_model [demo_chunk] demo_world
     = (Inl (PyExc (Subclass ''RateLimitError'' Exception) ''429''),
        emit (ChatCompletionsCreate (chat_request_of query_model [demo_chunk])) demo_world)
   \<and> script_answer
       (demo_services\<lparr>chat_create := \<lambda>h r. Inl (PyExc (Subclass ''RateLimitError'' Exception) ''429'')\<rparr>)
       demo_store demo_world
     = (Inl (PyExc (Subclass ''RateLimitError'' Exception) ''429''),
        emit (ChatCompletionsCreate (chat_request_of query_model [demo_chunk]))
          (emit (SimilaritySearch demo_store query_model 3) demo_world))
   \<and> fst (add_doc (demo_services\<lparr>add_documents := \<lambda>h s d i. Inl (PyExc ConnectionError ''down'')\<rparr>)
            demo_store [demo_chunk] [''id-x''] demo_world)
     = Inr PyNone
   \<and> fst (main (demo_services\<lparr>add_documents := \<lambda>h s d i. Inl (PyExc ConnectionError ''down'')\<rparr>)
            demo_world)
     = Inr (PyStr ''One page.'')
   \<and> (\<exists>h doc. loader_load
          (demo_services\<lparr>add_documents := \<lambda>h s d i. Inl (PyExc ConnectionError ''down'')\<rparr>)
          h (load_request FILE_PATH) = Inr doc)"
proof -
  let ?load = "demo_services\<lparr>loader_load := \<lambda>h r. Inl (PyExc OSError ''unreachable'')\<rparr>"
  let ?search = "demo_services\<lparr>similarity_search := \<lambda>h s q k. Inl (PyExc ConnectionError ''down'')\<rparr>"
  let ?chat = "demo_services\<lparr>chat_create := \<lambda>h r. Inl (PyExc (Subclass ''RateLimitError'' Exception) ''429'')\<rparr>"
  let ?ins = "demo_services\<lparr>add_documents := \<lambda>h s d i. Inl (PyExc ConnectionError ''down'')\<rparr>"
  have run: "fst (main ?ins demo_world) = Inr (PyStr ''One page.'')"
    by (simp add: main_def script_index_def script_answer_def check_keys_def prompt_key_def
        py_bind_def py_return_def environ_get_def set_openai_api_key_def logger_def extern_def
        emit_def load_docs_result generate_answer_result set_embeddings_def add_doc_def
        demo_services_def demo_world_def demo_chunk_def counter_uuid_def isinstance_def Let_def
        dict_get_def)
  from failures_propagate
         [of ?load demo_world FILE_PATH "PyExc OSError ''unreachable''" "''openai''" demo_store]
       failures_propagate
         [of ?search demo_world FILE_PATH "PyExc ConnectionError ''down''" "''openai''" demo_store]
       failures_propagate
         [of ?chat demo_world FILE_PATH "PyExc (Subclass ''RateLimitError'' Exception) ''429''"
             "''openai''" demo_store query_model "[demo_chunk]" "[demo_chunk]"]
       failures_propagate
         [of ?ins demo_world FILE_PATH "PyExc ConnectionError ''down''" "''openai''" demo_store
             query_model "[]" "[]" "PyStr ''One page.''" "[demo_chunk]" "[''id-x'']"]
       run
  show ?thesis
    by (simp add: demo_services_def demo_world_def isinstance_def)
qed

section \<open>The collection's configuration\<close>



lemma creates_check_keys: "creates (history (snd (check_keys sv w))) = creates (history w)"
  by (auto simp: check_keys_def prompt_key_def py_bind_def extern_def emit_def environ_set_def
      py_return_def creates_append split: sum.splits)







section \<open>Loading twice\<close>



end
